theory Spec2Isabelle
  imports Main
begin

section \<open>Seed selector nodes (seed\_selector\_int.py)\<close>

text \<open>
  The module defines three node classes, \<open>SeedSelectorInt\<close>, \<open>MySeedSelectorInt\<close> and
  \<open>SeedSelectorIntWithDisplay\<close>. Each class owns a class-level dictionary
  \<open>_previous_seeds\<close> and a method \<open>select\<close>; the first class also has the helper
  \<open>_randint_inclusive\<close>, which draws from \<open>secrets.randbelow\<close>.

  Python integers are unbounded, so seeds and bounds are \<open>int\<close>. The effects of the
  module are the in-place updates of the three dictionaries and the reads of the
  operating system's entropy; both are made explicit by passing a record of the process
  state through every operation.
\<close>

subsection \<open>Constants\<close>

definition INT32_MAX :: int where
  "INT32_MAX = 2147483647"

subsection \<open>Process state\<close>

text \<open>
  A dictionary \<open>_previous_seeds\<close> maps a key to the integer stored for it. The key is
  whatever the host passes as \<open>unique_id\<close>; Python's \<open>None\<close> is hashable and is
  therefore a possible key, so keys are \<open>'k option\<close> with \<open>None\<close> for Python's
  \<open>None\<close>.
\<close>

type_synonym 'k tracker = "'k option \<rightharpoonup> int"

text \<open>
  The three dictionaries are three distinct objects, one created by each class body
  (source lines 20, 100 and 177). \<open>secrets.randbelow\<close> is a library primitive; what it
  returns is decided by the entropy of the operating system, which the model takes as a
  tape: \<open>rand_tape w i n\<close> is the integer that the \<open>i\<close>-th draw of the process returns
  when it is asked for a number below \<open>n\<close>, and \<open>rand_pos\<close> counts the draws made so far.
\<close>

record 'k world =
  ssi_previous_seeds :: "'k tracker"
  my_previous_seeds :: "'k tracker"
  disp_previous_seeds :: "'k tracker"
  rand_tape :: "nat \<Rightarrow> int \<Rightarrow> int"
  rand_pos :: nat

text \<open>The state when the module has just been imported: every dictionary is \<open>{}\<close>.\<close>

definition initial_world :: "(nat \<Rightarrow> int \<Rightarrow> int) \<Rightarrow> 'k world" where
  "initial_world tape =
     \<lparr>ssi_previous_seeds = Map.empty, my_previous_seeds = Map.empty,
      disp_previous_seeds = Map.empty, rand_tape = tape, rand_pos = 0\<rparr>"

text \<open>
  The documented contract of \<open>secrets.randbelow(n)\<close> for a positive \<open>n\<close>: the result is
  in \<open>[0, n)\<close>. A tape that respects it is the only assumption made about the entropy.
\<close>

definition entropy_ok :: "'k world \<Rightarrow> bool" where
  "entropy_ok w = (\<forall>i n. 0 < n \<longrightarrow> 0 \<le> rand_tape w i n \<and> rand_tape w i n < n)"

subsection \<open>The bounded random sampler\<close>

datatype error = ValueError

text \<open>
  \<open>secrets.randbelow(n)\<close> raises \<open>ValueError\<close> when \<open>n \<le> 0\<close>; otherwise it consumes one
  draw.
\<close>

definition randbelow :: "int \<Rightarrow> 'k world \<Rightarrow> (error + int) \<times> 'k world" where
  "randbelow n w =
     (if n \<le> 0 then (Inl ValueError, w)
      else (Inr (rand_tape w (rand_pos w) n), w\<lparr>rand_pos := rand_pos w + 1\<rparr>))"

text \<open>
  \<^verbatim>\<open>
  def _randint_inclusive(self, max_val: int) -> int:
      max_val = int(max(0, min(max_val, INT32_MAX)))
      return secrets.randbelow(max_val + 1) if max_val < INT32_MAX else secrets.randbelow(INT32_MAX)
  \<close>
\<close>

definition randint_inclusive :: "int \<Rightarrow> 'k world \<Rightarrow> (error + int) \<times> 'k world" where
  "randint_inclusive max_val w =
     (let max_val' = max 0 (min max_val INT32_MAX)
      in if max_val' < INT32_MAX then randbelow (max_val' + 1) w
         else randbelow INT32_MAX w)"

text \<open>
  The bound that \<open>_randint_inclusive\<close> hands to \<open>secrets.randbelow\<close>, read off the two
  branches of its conditional expression.
\<close>

definition randbelow_argument :: "int \<Rightarrow> int" where
  "randbelow_argument max_val =
     (let max_val' = max 0 (min max_val INT32_MAX)
      in if max_val' < INT32_MAX then max_val' + 1 else INT32_MAX)"

subsection \<open>Values returned to the host\<close>

text \<open>
  The items of the output tuples and of the lists in the \<open>ui\<close> dictionary are integers
  and strings.
\<close>

datatype pyval = PInt int | PStr string

text \<open>
  \<open>SeedSelectorInt.select\<close> and \<open>MySeedSelectorInt.select\<close> return a dictionary with the
  keys \<open>"ui"\<close> and \<open>"result"\<close>; \<open>SeedSelectorIntWithDisplay.select\<close> returns a bare tuple.
  The \<open>ui\<close> dictionary is kept as an association list in the order of the source.
\<close>

datatype ret =
    NodeOutput "(string \<times> pyval list) list" "pyval list"
  | BareTuple "pyval list"

fun result_tuple :: "ret \<Rightarrow> pyval list" where
  "result_tuple (NodeOutput u r) = r"
| "result_tuple (BareTuple r) = r"

fun ui_payload :: "ret \<Rightarrow> (string \<times> pyval list) list option" where
  "ui_payload (NodeOutput u r) = Some u"
| "ui_payload (BareTuple r) = None"

text \<open>The second item of the output tuple is named \<open>previous_seed\<close> in every \<open>RETURN_NAMES\<close>.\<close>

definition previous_seed_of :: "ret \<Rightarrow> pyval option" where
  "previous_seed_of r = (case result_tuple r of a # b # rest \<Rightarrow> Some b | _ \<Rightarrow> None)"

subsection \<open>Formatting integers\<close>

text \<open>
  An f-string field \<open>{s}\<close> of an integer \<open>s\<close> is its decimal representation, with a
  leading minus sign for a negative number.
\<close>

fun str_nat :: "nat \<Rightarrow> string" where
  "str_nat n =
     (if n < 10 then [''0123456789'' ! n]
      else str_nat (n div 10) @ [''0123456789'' ! (n mod 10)])"

definition str_int :: "int \<Rightarrow> string" where
  "str_int i = (if i < 0 then CHR ''-'' # str_nat (nat (- i)) else str_nat (nat i))"

text \<open>
  The equation of \<open>str_nat\<close> is recursive on every argument, so it is unfolded only
  where a proof asks for it.
\<close>

declare str_nat.simps [simp del]

subsection \<open>The three \<open>select\<close> methods\<close>

text \<open>
  \<^verbatim>\<open>
  previous_seed = self._previous_seeds.get(unique_id, 0)
  if unique_id is not None:
      self._previous_seeds[unique_id] = int(seed)
  \<close>
  These lines open all three methods; each method applies them to the dictionary of its
  own class. \<open>seed\<close> is an integer, so \<open>int(seed)\<close> is \<open>seed\<close>.
\<close>

definition dict_get :: "'k tracker \<Rightarrow> 'k option \<Rightarrow> int \<Rightarrow> int" where
  "dict_get d key dflt = (case d key of Some v \<Rightarrow> v | None \<Rightarrow> dflt)"

definition SeedSelectorInt_select ::
  "int \<Rightarrow> int \<Rightarrow> 'k option \<Rightarrow> 'p \<Rightarrow> 'k world \<Rightarrow> ret \<times> 'k world" where
  "SeedSelectorInt_select seed max_val unique_id extra_pnginfo w =
     (let previous_seed = dict_get (ssi_previous_seeds w) unique_id 0;
          w' = (if unique_id \<noteq> None
                then w\<lparr>ssi_previous_seeds := (ssi_previous_seeds w)(unique_id \<mapsto> seed)\<rparr>
                else w)
      in (NodeOutput
            [(''seed'', [PInt seed]), (''previous_seed'', [PInt previous_seed])]
            [PInt seed, PInt previous_seed],
          w'))"

definition MySeedSelectorInt_select ::
  "int \<Rightarrow> string \<Rightarrow> 'k option \<Rightarrow> 'p \<Rightarrow> 'k world \<Rightarrow> ret \<times> 'k world" where
  "MySeedSelectorInt_select seed control_after_generate unique_id extra_pnginfo w =
     (let previous_seed = dict_get (my_previous_seeds w) unique_id 0;
          w' = (if unique_id \<noteq> None
                then w\<lparr>my_previous_seeds := (my_previous_seeds w)(unique_id \<mapsto> seed)\<rparr>
                else w);
          s = seed;
          debug_msg = ''seed='' @ str_int s @ '' | previous='' @ str_int previous_seed
                      @ '' | mode='' @ control_after_generate
      in (NodeOutput
            [(''seed_value'', [PInt s]), (''previous_seed_value'', [PInt previous_seed]),
             (''text'', [PStr debug_msg])]
            [PInt s, PInt previous_seed, PStr debug_msg],
          w'))"

definition SeedSelectorIntWithDisplay_select ::
  "int \<Rightarrow> int \<Rightarrow> 'k option \<Rightarrow> 'p \<Rightarrow> 'k world \<Rightarrow> ret \<times> 'k world" where
  "SeedSelectorIntWithDisplay_select seed max_val unique_id extra_pnginfo w =
     (let previous_seed = dict_get (disp_previous_seeds w) unique_id 0;
          w' = (if unique_id \<noteq> None
                then w\<lparr>disp_previous_seeds := (disp_previous_seeds w)(unique_id \<mapsto> seed)\<rparr>
                else w);
          s = seed;
          seed_display = ''Current: '' @ str_int s;
          previous_display = ''Previous: '' @ str_int previous_seed
      in (BareTuple [PInt s, PInt previous_seed, PStr seed_display, PStr previous_display],
          w'))"

subsection \<open>The host's call of a node\<close>

text \<open>
  \<open>NODE_CLASS_MAPPINGS\<close> registers the three classes, and \<open>FUNCTION = "select"\<close> names
  the method the host runs. The host resolves the inputs a class declares in
  \<open>INPUT_TYPES\<close> and passes them by name; \<open>inputs\<close> holds the resolved values, of which a
  variant receives the ones it declares (\<open>max_val\<close> or \<open>control_after_generate\<close>).
\<close>

datatype variant = SeedSelectorInt | MySeedSelectorInt | SeedSelectorIntWithDisplay

record 'k inputs =
  in_seed :: int
  in_max_val :: int
  in_control_after_generate :: string
  in_unique_id :: "'k option"

definition select :: "variant \<Rightarrow> 'k inputs \<Rightarrow> 'k world \<Rightarrow> ret \<times> 'k world" where
  "select v i w =
     (case v of
        SeedSelectorInt \<Rightarrow>
          SeedSelectorInt_select (in_seed i) (in_max_val i) (in_unique_id i) () w
      | MySeedSelectorInt \<Rightarrow>
          MySeedSelectorInt_select (in_seed i) (in_control_after_generate i) (in_unique_id i) () w
      | SeedSelectorIntWithDisplay \<Rightarrow>
          SeedSelectorIntWithDisplay_select (in_seed i) (in_max_val i) (in_unique_id i) () w)"

text \<open>The dictionary a variant's \<open>self._previous_seeds\<close> resolves to.\<close>

definition tracker_of :: "variant \<Rightarrow> 'k world \<Rightarrow> 'k tracker" where
  "tracker_of v w =
     (case v of
        SeedSelectorInt \<Rightarrow> ssi_previous_seeds w
      | MySeedSelectorInt \<Rightarrow> my_previous_seeds w
      | SeedSelectorIntWithDisplay \<Rightarrow> disp_previous_seeds w)"

text \<open>
  The host runs one node after the other; \<open>run\<close> executes a list of calls in order and
  collects what each returned.
\<close>

fun run :: "(variant \<times> 'k inputs) list \<Rightarrow> 'k world \<Rightarrow> ret list \<times> 'k world" where
  "run [] w = ([], w)"
| "run ((v, i) # cs) w =
     (let (r, w') = select v i w; (rs, w'') = run cs w' in (r # rs, w''))"

subsection \<open>Calls on one node\<close>

text \<open>
  A node of the graph is a variant together with the identifier the host gave it.
  \<open>calls_on v K\<close> holds of the calls made on that node; \<open>seeds_given\<close> lists the seeds
  those calls passed, in order, and \<open>returned_to\<close> the previous seeds they got back.
\<close>

definition calls_on :: "variant \<Rightarrow> 'k option \<Rightarrow> (variant \<times> 'k inputs) \<Rightarrow> bool" where
  "calls_on v K c = (fst c = v \<and> in_unique_id (snd c) = K)"

definition seeds_given :: "variant \<Rightarrow> 'k option \<Rightarrow> (variant \<times> 'k inputs) list \<Rightarrow> int list" where
  "seeds_given v K cs = map (\<lambda>c. in_seed (snd c)) (filter (calls_on v K) cs)"

definition returned_to ::
  "variant \<Rightarrow> 'k option \<Rightarrow> (variant \<times> 'k inputs) list \<Rightarrow> ret list \<Rightarrow> pyval option list" where
  "returned_to v K cs rs =
     map (\<lambda>p. previous_seed_of (snd p)) (filter (\<lambda>p. calls_on v K (fst p)) (zip cs rs))"

subsection \<open>Sample states\<close>

text \<open>
  A tape on which every draw returns the largest number its bound allows, and the state
  of a freshly started process that reads it. Identifiers are strings there, as the
  host's node ids are.
\<close>

definition top_tape :: "nat \<Rightarrow> int \<Rightarrow> int" where
  "top_tape i n = n - 1"

definition zero_tape :: "nat \<Rightarrow> int \<Rightarrow> int" where
  "zero_tape i n = 0"

definition fresh_world :: "string world" where
  "fresh_world = initial_world top_tape"

definition zero_world :: "string world" where
  "zero_world = initial_world zero_tape"

text \<open>
  The inputs of a call that leaves the optional fields at the defaults of the schema
  (\<open>max_val = INT32_MAX\<close>, \<open>control_after_generate = "randomize"\<close>).
\<close>

definition default_inputs :: "int \<Rightarrow> string option \<Rightarrow> string inputs" where
  "default_inputs s uid =
     \<lparr>in_seed = s, in_max_val = INT32_MAX, in_control_after_generate = ''randomize'',
      in_unique_id = uid\<rparr>"

section \<open>Properties of the sampler\<close>

lemma randint_inclusive_randbelow:
  "randint_inclusive m w = randbelow (randbelow_argument m) w"
  by (simp add: randint_inclusive_def randbelow_argument_def Let_def)

lemma randbelow_argument_pos: "1 \<le> randbelow_argument m"
  by (simp add: randbelow_argument_def INT32_MAX_def Let_def)

lemma randbelow_in_range:
  assumes "entropy_ok w" and "0 < n"
  shows "\<exists>r. fst (randbelow n w) = Inr r \<and> 0 \<le> r \<and> r < n"
  using assms by (simp add: randbelow_def entropy_ok_def)

lemma top_tape_ok: "entropy_ok (initial_world top_tape)"
  by (simp add: entropy_ok_def initial_world_def top_tape_def)

lemma fresh_world_ok: "entropy_ok fresh_world"
  by (simp add: fresh_world_def top_tape_ok)

lemma randint_inclusive_range:
  assumes "entropy_ok w" and "1 \<le> M" and "M \<le> INT32_MAX"
  shows "\<exists>r. fst (randint_inclusive M w) = Inr r \<and> 0 \<le> r \<and> r \<le> M"
proof -
  have pos: "0 < randbelow_argument M" using randbelow_argument_pos [of M] by simp
  have le: "randbelow_argument M \<le> M + 1"
    using assms(2,3) by (simp add: randbelow_argument_def Let_def)
  from randbelow_in_range [OF assms(1) pos]
  obtain r where "fst (randbelow (randbelow_argument M) w) = Inr r" "0 \<le> r" "r < randbelow_argument M"
    by blast
  with le show ?thesis by (auto simp: randint_inclusive_randbelow)
qed

lemma randint_inclusive_attains_below_top:
  assumes "0 \<le> M" and "M < INT32_MAX"
  shows "entropy_ok (initial_world top_tape :: 'k world) \<and>
         fst (randint_inclusive M (initial_world top_tape :: 'k world)) = Inr M"
proof
  show "entropy_ok (initial_world top_tape :: 'k world)" by (rule top_tape_ok)
  show "fst (randint_inclusive M (initial_world top_tape :: 'k world)) = Inr M"
    using assms
    by (simp add: randint_inclusive_def randbelow_def initial_world_def top_tape_def Let_def)
qed

text \<open>
  Claim C2. The claim asks that for every bound \<open>M\<close> in \<open>[1, 2^31 - 1]\<close> the sampler
  returns a value in \<open>[0, M]\<close> and that \<open>M\<close> itself can be drawn, also for
  \<open>M = 2^31 - 1\<close>. The range holds (\<open>randint_inclusive_range\<close>) and every bound below
  \<open>2^31 - 1\<close> is attained (\<open>randint_inclusive_attains_below_top\<close>). At
  \<open>M = INT32_MAX\<close> the method asks \<open>secrets.randbelow\<close> for a number below \<open>INT32_MAX\<close>,
  so whatever the entropy, the result is strictly below \<open>INT32_MAX\<close>: the method named
  \<open>_randint_inclusive\<close> never returns its upper bound there.
\<close>

theorem randint_inclusive_never_top:
  assumes "entropy_ok w"
  shows "\<exists>r. fst (randint_inclusive INT32_MAX w) = Inr r \<and> 0 \<le> r \<and> r < INT32_MAX"
proof -
  have arg: "randbelow_argument INT32_MAX = INT32_MAX"
    by (simp add: randbelow_argument_def Let_def)
  have "0 < INT32_MAX" by (simp add: INT32_MAX_def)
  from randbelow_in_range [OF assms this] show ?thesis
    by (simp add: randint_inclusive_randbelow arg)
qed

theorem randint_inclusive_never_top_witness:
  "fst (randint_inclusive INT32_MAX fresh_world) = Inr 2147483646"
proof -
  from randint_inclusive_never_top [OF fresh_world_ok]
  obtain r where "fst (randint_inclusive INT32_MAX fresh_world) = Inr r"
    by blast
  moreover have "fst (randint_inclusive INT32_MAX fresh_world) = Inr 2147483646"
    by (simp add: randint_inclusive_def randbelow_def fresh_world_def initial_world_def top_tape_def INT32_MAX_def Let_def)
  ultimately show ?thesis by simp
qed

text \<open>
  Claim C6. For every bound \<open>M\<close> above \<open>2^31 - 1\<close> the sampler applied to \<open>M\<close> is the
  sampler applied to \<open>2^31 - 1\<close>: on every process state, and so on every entropy, both
  return the same value and leave the same state.
\<close>

theorem randint_inclusive_clamped_above:
  assumes "INT32_MAX < M"
  shows "randint_inclusive M w = randint_inclusive INT32_MAX w"
  using assms by (simp add: randint_inclusive_def Let_def)

theorem randint_inclusive_clamped_above_witness:
  "INT32_MAX < 4294967296 \<and>
   randint_inclusive 4294967296 fresh_world
     = randint_inclusive INT32_MAX fresh_world
   \<and> fst (randint_inclusive 4294967296 fresh_world) = Inr 2147483646"
proof -
  have h: "INT32_MAX < 4294967296" by (simp add: INT32_MAX_def)
  have "fst (randint_inclusive INT32_MAX fresh_world) = Inr 2147483646"
    by (simp add: randint_inclusive_def randbelow_def fresh_world_def initial_world_def top_tape_def INT32_MAX_def Let_def)
  with h randint_inclusive_clamped_above [OF h, of fresh_world]
  show ?thesis by simp
qed

text \<open>
  Claim C10. The sampler is total on every integer bound, negative and zero included:
  it calls \<open>secrets.randbelow\<close> with \<open>randbelow_argument m\<close>, which is at least 1, so the
  \<open>ValueError\<close> branch is never taken and a number is returned; for every \<open>m \<le> 0\<close> that
  number is 0.
\<close>

theorem randint_inclusive_total:
  assumes "entropy_ok w"
  shows "randint_inclusive m w = randbelow (randbelow_argument m) w
         \<and> 1 \<le> randbelow_argument m
         \<and> (\<exists>r. fst (randint_inclusive m w) = Inr r)
         \<and> (m \<le> 0 \<longrightarrow> fst (randint_inclusive m w) = Inr 0)"
proof -
  have pos: "0 < randbelow_argument m" using randbelow_argument_pos [of m] by simp
  from randbelow_in_range [OF assms pos]
  obtain r where r: "fst (randbelow (randbelow_argument m) w) = Inr r" "0 \<le> r" "r < randbelow_argument m"
    by blast
  have "m \<le> 0 \<Longrightarrow> randbelow_argument m = 1"
    by (simp add: randbelow_argument_def INT32_MAX_def Let_def)
  with r have "m \<le> 0 \<Longrightarrow> r = 0" by simp
  with r show ?thesis
    by (auto simp: randint_inclusive_randbelow randbelow_argument_pos)
qed

theorem randint_inclusive_total_witness:
  "entropy_ok fresh_world
   \<and> randbelow_argument (- 5) = 1
   \<and> fst (randint_inclusive (- 5) fresh_world) = Inr 0"
proof -
  have "randbelow_argument (- 5) = 1"
    by (simp add: randbelow_argument_def INT32_MAX_def Let_def)
  moreover have "fst (randint_inclusive (- 5) fresh_world) = Inr 0"
    using randint_inclusive_total [OF fresh_world_ok, of "- 5", THEN conjunct2, THEN conjunct2, THEN conjunct2]
    by simp
  ultimately show ?thesis using fresh_world_ok by blast
qed

section \<open>Properties of the \<open>select\<close> methods\<close>

lemma select_previous:
  "previous_seed_of (fst (select v i w)) = Some (PInt (dict_get (tracker_of v w) (in_unique_id i) 0))"
  by (cases v)
     (simp_all add: select_def tracker_of_def previous_seed_of_def SeedSelectorInt_select_def
        MySeedSelectorInt_select_def SeedSelectorIntWithDisplay_select_def Let_def)

lemma select_tracker:
  "tracker_of v' (snd (select v i w)) =
     (if v' = v \<and> in_unique_id i \<noteq> None then (tracker_of v w)(in_unique_id i \<mapsto> in_seed i)
      else tracker_of v' w)"
  by (cases v; cases v')
     (simp_all add: select_def tracker_of_def SeedSelectorInt_select_def
        MySeedSelectorInt_select_def SeedSelectorIntWithDisplay_select_def Let_def)

lemma select_entropy:
  "rand_tape (snd (select v i w)) = rand_tape w \<and> rand_pos (snd (select v i w)) = rand_pos w"
  by (cases v)
     (simp_all add: select_def SeedSelectorInt_select_def
        MySeedSelectorInt_select_def SeedSelectorIntWithDisplay_select_def Let_def)

lemma run_Cons:
  "run ((v, i) # cs) w =
     (fst (select v i w) # fst (run cs (snd (select v i w))), snd (run cs (snd (select v i w))))"
  by (simp add: split_beta Let_def)

lemma length_run: "length (fst (run cs w)) = length cs"
  by (induction cs arbitrary: w) (auto simp: split_beta Let_def)

lemma history_same:
  assumes "\<forall>i \<in> set inps. in_unique_id i = Some k"
  shows "map previous_seed_of (fst (run (map (Pair v) inps) w)) =
         map (\<lambda>s. Some (PInt s))
           (take (length inps) (dict_get (tracker_of v w) (Some k) 0 # map in_seed inps))"
  using assms
proof (induction inps arbitrary: w)
  case Nil
  show ?case by simp
next
  case (Cons i inps)
  have uid: "in_unique_id i = Some k" using Cons.prems by simp
  have rest: "\<forall>j \<in> set inps. in_unique_id j = Some k" using Cons.prems by simp
  have next_val: "dict_get (tracker_of v (snd (select v i w))) (Some k) 0 = in_seed i"
    by (simp add: select_tracker uid dict_get_def)
  show ?case
    using Cons.IH [OF rest, of "snd (select v i w)"]
    by (simp add: run_Cons select_previous uid next_val del: run.simps)
qed

lemma history_interleaved:
  "returned_to v (Some k) cs (fst (run cs w)) =
     map (\<lambda>s. Some (PInt s))
       (take (length (seeds_given v (Some k) cs))
          (dict_get (tracker_of v w) (Some k) 0 # seeds_given v (Some k) cs))"
proof (induction cs arbitrary: w)
  case Nil
  show ?case by (simp add: returned_to_def seeds_given_def)
next
  case (Cons c cs)
  obtain v' i where c: "c = (v', i)" by (cases c)
  show ?case
  proof (cases "calls_on v (Some k) c")
    case True
    then have v: "v' = v" and uid: "in_unique_id i = Some k"
      by (simp_all add: calls_on_def c)
    have next_val: "dict_get (tracker_of v (snd (select v i w))) (Some k) 0 = in_seed i"
      by (simp add: select_tracker uid dict_get_def)
    have here: "returned_to v (Some k) (c # cs) (fst (run (c # cs) w)) =
                previous_seed_of (fst (select v i w))
                  # returned_to v (Some k) cs (fst (run cs (snd (select v i w))))"
      using True by (simp add: returned_to_def c v run_Cons del: run.simps)
    have seeds: "seeds_given v (Some k) (c # cs) = in_seed i # seeds_given v (Some k) cs"
      using True by (simp add: seeds_given_def c)
    show ?thesis
      by (simp only: here seeds Cons.IH next_val select_previous uid) simp
  next
    case False
    have keep: "dict_get (tracker_of v (snd (select v' i w))) (Some k) 0
                = dict_get (tracker_of v w) (Some k) 0"
      using False by (auto simp: select_tracker dict_get_def calls_on_def c)
    have here: "returned_to v (Some k) (c # cs) (fst (run (c # cs) w)) =
                returned_to v (Some k) cs (fst (run cs (snd (select v' i w))))"
      using False by (simp add: returned_to_def c run_Cons del: run.simps)
    have seeds: "seeds_given v (Some k) (c # cs) = seeds_given v (Some k) cs"
      using False by (simp add: seeds_given_def)
    show ?thesis
      by (simp only: here seeds Cons.IH keep)
  qed
qed

lemma run_no_None_key:
  "tracker_of v (snd (run cs (initial_world tape))) None = None"
proof -
  have "tracker_of v w None = None \<Longrightarrow> tracker_of v (snd (run cs w)) None = None" for w :: "'a world"
  proof (induction cs arbitrary: w)
    case Nil
    then show ?case by simp
  next
    case (Cons c cs)
    obtain v' i where c: "c = (v', i)" by (cases c)
    have "tracker_of v (snd (select v' i w)) None = None"
      using Cons.prems by (auto simp: select_tracker)
    from Cons.IH [OF this] show ?case
      by (simp add: c run_Cons del: run.simps)
  qed
  moreover have "tracker_of v (initial_world tape) None = None"
    by (cases v) (simp_all add: tracker_of_def initial_world_def)
  ultimately show ?thesis by blast
qed

lemma select_None_unchanged:
  "snd (select v (i\<lparr>in_unique_id := None\<rparr>) w) = w"
  by (cases v)
     (simp_all add: select_def SeedSelectorInt_select_def
        MySeedSelectorInt_select_def SeedSelectorIntWithDisplay_select_def Let_def)

lemmas select_defs =
  select_def SeedSelectorInt_select_def MySeedSelectorInt_select_def
  SeedSelectorIntWithDisplay_select_def dict_get_def Let_def

lemmas sample_defs = default_inputs_def fresh_world_def zero_world_def initial_world_def

lemma tracker_of_initial: "tracker_of v (initial_world tape) = Map.empty"
  by (cases v) (simp_all add: tracker_of_def initial_world_def)

lemma tracker_of_fresh: "tracker_of v fresh_world = Map.empty"
  by (simp add: fresh_world_def tracker_of_initial)

text \<open>
  Claim C1. Take a variant \<open>v\<close> and an identifier \<open>k\<close> for which the variant's tracker
  has no entry yet, and any sequence of calls of \<open>v\<close> that all carry \<open>k\<close>. The previous
  seeds returned are \<open>0\<close> for the first call and, for the \<open>i\<close>-th call with \<open>i > 1\<close>,
  the seed passed by call \<open>i - 1\<close>: together, the list \<open>0 # seeds\<close> cut to the number of
  calls. The entry is read before it is overwritten.
\<close>

theorem previous_seed_is_last_seed:
  assumes "tracker_of v w (Some k) = None"
    and "\<forall>i \<in> set inps. in_unique_id i = Some k"
  shows "map previous_seed_of (fst (run (map (Pair v) inps) w)) =
         map (\<lambda>s. Some (PInt s)) (take (length inps) (0 # map in_seed inps))"
proof -
  have "dict_get (tracker_of v w) (Some k) 0 = 0"
    using assms(1) by (simp add: dict_get_def)
  with history_same [OF assms(2), of v w] show ?thesis by simp
qed

theorem previous_seed_is_last_seed_witness:
  "map previous_seed_of
     (fst (run [(SeedSelectorInt, default_inputs 42 (Some ''node-1'')),
                (SeedSelectorInt, default_inputs 7 (Some ''node-1'')),
                (SeedSelectorInt, default_inputs 99 (Some ''node-1''))] fresh_world))
   = [Some (PInt 0), Some (PInt 42), Some (PInt 7)]"
proof -
  have fresh: "tracker_of SeedSelectorInt fresh_world (Some ''node-1'') = None"
    by (simp add: tracker_of_def sample_defs)
  have ids: "\<forall>i \<in> set [default_inputs 42 (Some ''node-1''), default_inputs 7 (Some ''node-1''),
                          default_inputs 99 (Some ''node-1'')]. in_unique_id i = Some ''node-1''"
    by (simp add: default_inputs_def)
  show ?thesis
    using previous_seed_is_last_seed [OF fresh ids]
    by (simp add: default_inputs_def)
qed

text \<open>
  Claim C3, as stated, fails. The claim says that the three variants work on one shared
  mapping, so that a call of one variant with \<open>(K, S)\<close> followed by a call of another
  variant with \<open>(K, S')\<close> returns \<open>S\<close>. In a fresh process, \<open>SeedSelectorInt\<close> called with
  \<open>("node-1", 42)\<close> and then \<open>MySeedSelectorInt\<close> called with \<open>("node-1", 7)\<close> returns
  the previous seed \<open>0\<close>, not \<open>42\<close>: each class body creates a dictionary of its own.
\<close>

theorem variants_share_tracker_counterexample:
  "previous_seed_of
     (fst (select MySeedSelectorInt (default_inputs 7 (Some ''node-1''))
        (snd (select SeedSelectorInt (default_inputs 42 (Some ''node-1'')) fresh_world))))
   = Some (PInt 0)
   \<and> previous_seed_of
     (fst (select MySeedSelectorInt (default_inputs 7 (Some ''node-1''))
        (snd (select SeedSelectorInt (default_inputs 42 (Some ''node-1'')) fresh_world))))
   \<noteq> Some (PInt 42)"
  by (simp add: select_previous select_tracker tracker_of_fresh dict_get_def)

text \<open>
  Claim C3, amended. Each variant has its own process-wide tracker. For every
  identifier \<open>k\<close> and all seeds, a call of variant \<open>v\<close> with \<open>(k, S)\<close> followed by a call of
  variant \<open>v'\<close> with \<open>(k, S')\<close> returns \<open>S\<close> when \<open>v'\<close> is \<open>v\<close>; when \<open>v'\<close> is another
  variant it returns what the tracker of \<open>v'\<close> held for \<open>k\<close> before the first call
  (\<open>0\<close> when it held nothing), untouched by the first call.
\<close>

theorem trackers_are_per_variant:
  assumes "in_unique_id i = Some k" and "in_unique_id i' = Some k"
  shows "previous_seed_of (fst (select v' i' (snd (select v i w)))) =
           (if v' = v then Some (PInt (in_seed i))
            else Some (PInt (dict_get (tracker_of v' w) (Some k) 0)))"
  using assms by (simp add: select_previous select_tracker dict_get_def)

theorem trackers_are_per_variant_witness:
  "previous_seed_of
     (fst (select SeedSelectorInt (default_inputs 7 (Some ''node-1''))
        (snd (select SeedSelectorInt (default_inputs 42 (Some ''node-1'')) fresh_world))))
   = Some (PInt 42)
   \<and> previous_seed_of
     (fst (select SeedSelectorIntWithDisplay (default_inputs 7 (Some ''node-1''))
        (snd (select SeedSelectorInt (default_inputs 42 (Some ''node-1'')) fresh_world))))
   = Some (PInt 0)"
proof -
  have a: "in_unique_id (default_inputs 42 (Some ''node-1'')) = Some ''node-1''"
    and b: "in_unique_id (default_inputs 7 (Some ''node-1'')) = Some ''node-1''"
    by (simp_all add: default_inputs_def)
  have none: "dict_get (tracker_of SeedSelectorIntWithDisplay fresh_world) (Some ''node-1'') 0 = 0"
    by (simp add: tracker_of_def dict_get_def sample_defs)
  show ?thesis
    using trackers_are_per_variant [OF a b, of SeedSelectorInt SeedSelectorInt fresh_world]
      trackers_are_per_variant [OF a b, of SeedSelectorIntWithDisplay SeedSelectorInt fresh_world]
      none
    by (simp add: default_inputs_def)
qed

text \<open>
  Claim C4. A call that carries an identifier \<open>K1\<close> (or none) other than \<open>k2\<close> leaves the
  entry for \<open>k2\<close> in every tracker as it was. Hence, in any list of calls, whatever
  other nodes it interleaves, the previous seeds returned to the calls on the node
  \<open>(v', k2)\<close> are that node's own history: its entry at the start (or \<open>0\<close>), followed by
  the seeds its own calls passed.
\<close>

theorem identifiers_independent:
  assumes "K1 \<noteq> Some k2"
  shows "tracker_of v' (snd (select v (i\<lparr>in_unique_id := K1\<rparr>) w)) (Some k2)
           = tracker_of v' w (Some k2)
         \<and> returned_to v' (Some k2) cs (fst (run cs w)) =
             map (\<lambda>s. Some (PInt s))
               (take (length (seeds_given v' (Some k2) cs))
                  (dict_get (tracker_of v' w) (Some k2) 0 # seeds_given v' (Some k2) cs))"
  using assms by (simp add: select_tracker history_interleaved)

theorem identifiers_independent_witness:
  "tracker_of SeedSelectorInt
     (snd (select SeedSelectorInt (default_inputs 1 (Some ''a''))
        (snd (select SeedSelectorInt (default_inputs 2 (Some ''b'')) fresh_world)))) (Some ''b'')
   = Some 2
   \<and> returned_to SeedSelectorInt (Some ''b'')
       [(SeedSelectorInt, default_inputs 1 (Some ''a'')),
        (SeedSelectorInt, default_inputs 4 (Some ''b'')),
        (SeedSelectorInt, default_inputs 3 (Some ''a'')),
        (SeedSelectorInt, default_inputs 6 (Some ''b''))]
       (fst (run [(SeedSelectorInt, default_inputs 1 (Some ''a'')),
                  (SeedSelectorInt, default_inputs 4 (Some ''b'')),
                  (SeedSelectorInt, default_inputs 3 (Some ''a'')),
                  (SeedSelectorInt, default_inputs 6 (Some ''b''))]
             (snd (select SeedSelectorInt (default_inputs 2 (Some ''b'')) fresh_world))))
   = [Some (PInt 2), Some (PInt 4)]"
proof -
  have ne: "Some ''a'' \<noteq> Some ''b''" by simp
  have upd: "(default_inputs 1 (Some ''a''))\<lparr>in_unique_id := Some ''a''\<rparr> = default_inputs 1 (Some ''a'')"
    by (simp add: default_inputs_def)
  have before: "tracker_of SeedSelectorInt
     (snd (select SeedSelectorInt (default_inputs 2 (Some ''b'')) fresh_world)) (Some ''b'') = Some 2"
    by (simp add: select_tracker default_inputs_def)
  have start: "dict_get (tracker_of SeedSelectorInt
     (snd (select SeedSelectorInt (default_inputs 2 (Some ''b'')) fresh_world))) (Some ''b'') 0 = 2"
    by (simp add: before dict_get_def)
  have seeds: "seeds_given SeedSelectorInt (Some ''b'')
       [(SeedSelectorInt, default_inputs 1 (Some ''a'')),
        (SeedSelectorInt, default_inputs 4 (Some ''b'')),
        (SeedSelectorInt, default_inputs 3 (Some ''a'')),
        (SeedSelectorInt, default_inputs 6 (Some ''b''))] = [4, 6]"
    by (simp add: seeds_given_def calls_on_def default_inputs_def)
  show ?thesis
    using identifiers_independent [OF ne, where v' = SeedSelectorInt and v = SeedSelectorInt
        and i = "default_inputs 1 (Some ''a'')"
        and w = "snd (select SeedSelectorInt (default_inputs 2 (Some ''b'')) fresh_world)"
        and cs = "[(SeedSelectorInt, default_inputs 1 (Some ''a'')),
        (SeedSelectorInt, default_inputs 4 (Some ''b'')),
        (SeedSelectorInt, default_inputs 3 (Some ''a'')),
        (SeedSelectorInt, default_inputs 6 (Some ''b''))]"]
    by (simp only: upd before start seeds) simp
qed

lemma select_None_previous:
  assumes "tracker_of v w None = None"
  shows "previous_seed_of (fst (select v (i\<lparr>in_unique_id := None\<rparr>) w)) = Some (PInt 0)"
  using assms by (simp add: select_previous dict_get_def)

text \<open>
  Claim C5. A call without an identifier changes nothing in the state, whatever the
  state. In every state the process can reach from its start by running calls, such a
  call returns the previous seed \<open>0\<close>; two such calls in a row both return \<open>0\<close> and leave
  the state as it was.
\<close>

theorem no_identifier_no_persistence:
  "previous_seed_of
     (fst (select v (i\<lparr>in_unique_id := None\<rparr>) (snd (run cs (initial_world tape)))))
     = Some (PInt 0)
   \<and> snd (select v (i\<lparr>in_unique_id := None\<rparr>) w) = w
   \<and> map previous_seed_of
       (fst (run [(v, i\<lparr>in_unique_id := None\<rparr>), (v', i'\<lparr>in_unique_id := None\<rparr>)]
               (snd (run cs (initial_world tape)))))
     = [Some (PInt 0), Some (PInt 0)]
   \<and> snd (run [(v, i\<lparr>in_unique_id := None\<rparr>), (v', i'\<lparr>in_unique_id := None\<rparr>)] w) = w"
proof -
  let ?w = "snd (run cs (initial_world tape))"
  have one: "previous_seed_of (fst (select u (j\<lparr>in_unique_id := None\<rparr>) ?w)) = Some (PInt 0)"
    for u and j :: "'a inputs"
    by (rule select_None_previous) (rule run_no_None_key)
  have two: "map previous_seed_of
       (fst (run [(v, i\<lparr>in_unique_id := None\<rparr>), (v', i'\<lparr>in_unique_id := None\<rparr>)] ?w))
     = [Some (PInt 0), Some (PInt 0)]"
    by (simp add: run_Cons select_None_unchanged one del: run.simps(2))
  have same: "snd (run [(v, i\<lparr>in_unique_id := None\<rparr>), (v', i'\<lparr>in_unique_id := None\<rparr>)] w) = w"
    by (simp add: run_Cons select_None_unchanged del: run.simps(2))
  from one two same show ?thesis
    by (simp only: select_None_unchanged)
qed

theorem no_identifier_no_persistence_witness:
  "map previous_seed_of
     (fst (run [(SeedSelectorInt, default_inputs 5 None), (SeedSelectorInt, default_inputs 9 None)]
             (snd (run [(SeedSelectorInt, default_inputs 42 (Some ''node-1''))] fresh_world))))
   = [Some (PInt 0), Some (PInt 0)]
   \<and> snd (run [(SeedSelectorInt, default_inputs 5 None), (SeedSelectorInt, default_inputs 9 None)]
             (snd (run [(SeedSelectorInt, default_inputs 42 (Some ''node-1''))] fresh_world)))
     = snd (run [(SeedSelectorInt, default_inputs 42 (Some ''node-1''))] fresh_world)"
proof -
  have upd: "(default_inputs s None)\<lparr>in_unique_id := None\<rparr> = default_inputs s None" for s
    by (simp add: default_inputs_def)
  show ?thesis
    using no_identifier_no_persistence [where v = SeedSelectorInt and v' = SeedSelectorInt
        and i = "default_inputs 5 None" and i' = "default_inputs 9 None"
        and cs = "[(SeedSelectorInt, default_inputs 42 (Some ''node-1''))]" and tape = top_tape
        and w = "snd (run [(SeedSelectorInt, default_inputs 42 (Some ''node-1''))] fresh_world)"]
    by (simp only: upd fresh_world_def)
qed

text \<open>
  Claim C7, as stated, fails. The claim says that every variant, the third included,
  returns a \<open>ui\<close> payload next to its output tuple. \<open>SeedSelectorIntWithDisplay.select\<close>
  returns the bare tuple: called with seed \<open>42\<close> on node \<open>"node-1"\<close> in a fresh process it
  returns no \<open>ui\<close> payload.
\<close>

theorem display_variant_ui_counterexample:
  "ui_payload (fst (select SeedSelectorIntWithDisplay (default_inputs 42 (Some ''node-1'')) fresh_world))
   = None"
  by (simp add: select_defs)

text \<open>
  Claim C7, amended. For every input and state, with \<open>p\<close> the entry of the variant's
  tracker for the identifier (\<open>0\<close> when there is none):
  \<open>SeedSelectorInt\<close> returns the tuple \<open>(seed, p)\<close> and the \<open>ui\<close> payload
  \<open>{seed: [seed], previous_seed: [p]}\<close>;
  \<open>MySeedSelectorInt\<close> returns \<open>(seed, p, debug)\<close> with
  \<open>debug = "seed=S | previous=P | mode=M"\<close> and the \<open>ui\<close> payload
  \<open>{seed_value: [seed], previous_seed_value: [p], text: [debug]}\<close>;
  \<open>SeedSelectorIntWithDisplay\<close> returns \<open>(seed, p, "Current: S", "Previous: P")\<close> and no
  \<open>ui\<close> payload: its display strings are outputs of the tuple.
\<close>

theorem select_packaging:
  "result_tuple (fst (select SeedSelectorInt i w)) =
     [PInt (in_seed i), PInt (dict_get (tracker_of SeedSelectorInt w) (in_unique_id i) 0)]
   \<and> ui_payload (fst (select SeedSelectorInt i w)) =
     Some [(''seed'', [PInt (in_seed i)]),
           (''previous_seed'', [PInt (dict_get (tracker_of SeedSelectorInt w) (in_unique_id i) 0)])]
   \<and> result_tuple (fst (select MySeedSelectorInt i w)) =
     [PInt (in_seed i), PInt (dict_get (tracker_of MySeedSelectorInt w) (in_unique_id i) 0),
      PStr (''seed='' @ str_int (in_seed i) @ '' | previous=''
            @ str_int (dict_get (tracker_of MySeedSelectorInt w) (in_unique_id i) 0)
            @ '' | mode='' @ in_control_after_generate i)]
   \<and> ui_payload (fst (select MySeedSelectorInt i w)) =
     Some [(''seed_value'', [PInt (in_seed i)]),
           (''previous_seed_value'',
              [PInt (dict_get (tracker_of MySeedSelectorInt w) (in_unique_id i) 0)]),
           (''text'',
              [PStr (''seed='' @ str_int (in_seed i) @ '' | previous=''
                @ str_int (dict_get (tracker_of MySeedSelectorInt w) (in_unique_id i) 0)
                @ '' | mode='' @ in_control_after_generate i)])]
   \<and> result_tuple (fst (select SeedSelectorIntWithDisplay i w)) =
     [PInt (in_seed i),
      PInt (dict_get (tracker_of SeedSelectorIntWithDisplay w) (in_unique_id i) 0),
      PStr (''Current: '' @ str_int (in_seed i)),
      PStr (''Previous: ''
            @ str_int (dict_get (tracker_of SeedSelectorIntWithDisplay w) (in_unique_id i) 0))]
   \<and> ui_payload (fst (select SeedSelectorIntWithDisplay i w)) = None"
  by (simp add: select_def SeedSelectorInt_select_def MySeedSelectorInt_select_def
        SeedSelectorIntWithDisplay_select_def tracker_of_def Let_def)

lemma str_int_42: "str_int 42 = ''42''"
  by (simp add: str_int_def str_nat.simps)

lemma str_int_7: "str_int 7 = ''7''"
  by (simp add: str_int_def str_nat.simps)

lemma default_inputs_fields:
  "in_seed (default_inputs s u) = s"
  "in_max_val (default_inputs s u) = INT32_MAX"
  "in_control_after_generate (default_inputs s u) = ''randomize''"
  "in_unique_id (default_inputs s u) = u"
  by (simp_all add: default_inputs_def)

theorem select_packaging_witness:
  "result_tuple (fst (select MySeedSelectorInt (default_inputs 7 (Some ''node-1''))
         (snd (select MySeedSelectorInt (default_inputs 42 (Some ''node-1'')) fresh_world))))
   = [PInt 7, PInt 42, PStr ''seed=7 | previous=42 | mode=randomize'']
   \<and> ui_payload (fst (select MySeedSelectorInt (default_inputs 7 (Some ''node-1''))
         (snd (select MySeedSelectorInt (default_inputs 42 (Some ''node-1'')) fresh_world))))
   = Some [(''seed_value'', [PInt 7]), (''previous_seed_value'', [PInt 42]),
           (''text'', [PStr ''seed=7 | previous=42 | mode=randomize''])]
   \<and> result_tuple (fst (select SeedSelectorIntWithDisplay (default_inputs 7 (Some ''node-1''))
         (snd (select SeedSelectorIntWithDisplay (default_inputs 42 (Some ''node-1'')) fresh_world))))
   = [PInt 7, PInt 42, PStr ''Current: 7'', PStr ''Previous: 42'']
   \<and> ui_payload (fst (select SeedSelectorIntWithDisplay (default_inputs 7 (Some ''node-1''))
         (snd (select SeedSelectorIntWithDisplay (default_inputs 42 (Some ''node-1'')) fresh_world))))
   = None"
proof -
  have prev: "dict_get (tracker_of v
                (snd (select v (default_inputs 42 (Some ''node-1'')) fresh_world)))
                (Some ''node-1'') 0 = 42" for v
    by (simp add: select_tracker dict_get_def default_inputs_fields)
  show ?thesis
    using select_packaging [of "default_inputs 7 (Some ''node-1'')"
        "snd (select MySeedSelectorInt (default_inputs 42 (Some ''node-1'')) fresh_world)"]
      select_packaging [of "default_inputs 7 (Some ''node-1'')"
        "snd (select SeedSelectorIntWithDisplay (default_inputs 42 (Some ''node-1'')) fresh_world)"]
    by (simp add: default_inputs_fields prev str_int_42 str_int_7)
qed

text \<open>
  Claim C9. The execution operation is deterministic and never draws from the random
  source. For two states that agree on the three trackers, and may differ in their
  entropy, a call with the same inputs returns the same value (output tuple and \<open>ui\<close>
  payload) and leaves the same trackers; the tape and the number of draws made are what
  they were before the call.
\<close>

theorem select_deterministic:
  assumes "ssi_previous_seeds w1 = ssi_previous_seeds w2"
    and "my_previous_seeds w1 = my_previous_seeds w2"
    and "disp_previous_seeds w1 = disp_previous_seeds w2"
  shows "fst (select v i w1) = fst (select v i w2)
         \<and> tracker_of v' (snd (select v i w1)) = tracker_of v' (snd (select v i w2))
         \<and> rand_tape (snd (select v i w1)) = rand_tape w1
         \<and> rand_pos (snd (select v i w1)) = rand_pos w1"
proof -
  have out: "fst (select v i w1) = fst (select v i w2)"
    using assms by (cases v) (simp_all add: select_defs)
  have tr: "tracker_of u w1 = tracker_of u w2" for u
    using assms by (cases u) (simp_all add: tracker_of_def)
  have post: "tracker_of v' (snd (select v i w1)) = tracker_of v' (snd (select v i w2))"
    by (auto simp: select_tracker tr)
  from out post select_entropy [of v i w1] show ?thesis by simp
qed

theorem select_deterministic_witness:
  "fst (select MySeedSelectorInt (default_inputs 7 (Some ''node-1'')) fresh_world)
     = fst (select MySeedSelectorInt (default_inputs 7 (Some ''node-1'')) zero_world)
   \<and> tracker_of MySeedSelectorInt
       (snd (select MySeedSelectorInt (default_inputs 7 (Some ''node-1'')) fresh_world))
     = tracker_of MySeedSelectorInt
       (snd (select MySeedSelectorInt (default_inputs 7 (Some ''node-1'')) zero_world))
   \<and> fst (randint_inclusive 5 fresh_world) = Inr 5
   \<and> fst (randint_inclusive 5 zero_world) = Inr 0"
proof -
  have a: "ssi_previous_seeds fresh_world = ssi_previous_seeds zero_world"
    and b: "my_previous_seeds fresh_world = my_previous_seeds zero_world"
    and c: "disp_previous_seeds fresh_world = disp_previous_seeds zero_world"
    by (simp_all add: sample_defs)
  have d: "fst (randint_inclusive 5 fresh_world) = Inr 5"
    by (simp add: randint_inclusive_def randbelow_def sample_defs top_tape_def INT32_MAX_def Let_def)
  have e: "fst (randint_inclusive 5 zero_world) = Inr 0"
    by (simp add: randint_inclusive_def randbelow_def sample_defs zero_tape_def INT32_MAX_def Let_def)
  show ?thesis
    using select_deterministic [OF a b c, of MySeedSelectorInt "default_inputs 7 (Some ''node-1'')" MySeedSelectorInt]
      d e
    by simp
qed

end
